theory Spec2Isabelle
  imports Main "HOL-Library.Word"
begin

section \<open>The SOCKS5 proxy of \<^verbatim>\<open>src/proxy/socks5_proxy.py\<close>\<close>

text \<open>
  One \<^verbatim>\<open>ProxyThread\<close> serves one client connection. Everything the thread does to the
  outside world is a call on the client socket, on the destination socket or on the two
  database logging functions. The model runs the thread against an explicit environment
  that fixes what each of those calls does, and returns the list of the calls that
  completed, in order, together with how the thread's code ended.
\<close>

subsection \<open>Values, exceptions and observable events\<close>

type_synonym byte = "8 word"

text \<open>
  Only the distinction made by \<^verbatim>\<open>relay_data\<close> matters among the exceptions derived
  from \<^verbatim>\<open>Exception\<close>: \<^verbatim>\<open>ConnectionResetError\<close> against every other one
  (\<^verbatim>\<open>struct.error\<close>, \<^verbatim>\<open>IndexError\<close>, \<^verbatim>\<open>OSError\<close>, \<^verbatim>\<open>UnicodeDecodeError\<close>, ...). Each
  carries the text that \<^verbatim>\<open>str(e)\<close> yields.
\<close>

datatype exn = ConnectionResetError string | OtherException string

fun str :: "exn \<Rightarrow> string" where
  "str (ConnectionResetError m) = m"
| "str (OtherException m) = m"

text \<open>What \<^verbatim>\<open>recv\<close> gives back, and what a call without a result (\<^verbatim>\<open>sendall\<close>,
  \<^verbatim>\<open>socket.socket\<close>, \<^verbatim>\<open>connect\<close>, \<^verbatim>\<open>select.select\<close>) does.\<close>

datatype recv_result = RecvOk "byte list" | RecvFail exn

datatype call_result = Ok | Fail exn

text \<open>The destination address: \<^verbatim>\<open>inet_ntoa\<close> of four bytes, or a decoded name.\<close>

datatype host = IPv4 byte byte byte byte | Domain string

datatype status = Closed | Error

text \<open>
  The events are the calls that completed. The writes to the client are told apart by the
  place of the call: the method-selection answer of \<^verbatim>\<open>handle_greeting\<close>, the reply of
  \<^verbatim>\<open>send_reply\<close>, and the relayed data of \<^verbatim>\<open>relay_data\<close>. The session identifier and
  the client address are the same in every logging call of a thread and are left out.
\<close>

datatype event =
    ClientRecv nat
  | GreetingReply "byte list"
  | SocksReply "byte list"
  | DestCreated
  | DestConnected host nat
  | DestRecv nat
  | ToDest "byte list"
  | ToClient "byte list"
  | DestClosed
  | ClientClosed
  | LogStart host nat
  | LogEnd nat nat status "string option"

subsection \<open>Computations with a trace, an exception or no return\<close>

text \<open>
  A piece of the thread's code yields the events it caused and one of: a value, a raised
  exception, or \<open>Blocks\<close> when a call never returns (\<^verbatim>\<open>select.select\<close> without a
  timeout on sockets that stay silent).
\<close>

datatype 'a result = Returns 'a | Raises exn | Blocks

type_synonym 'a io = "event list \<times> 'a result"

definition io_return :: "'a \<Rightarrow> 'a io" where
  "io_return x = ([], Returns x)"

definition io_raise :: "exn \<Rightarrow> 'a io" where
  "io_raise e = ([], Raises e)"

definition io_emit :: "event \<Rightarrow> unit io" where
  "io_emit ev = ([ev], Returns ())"

text \<open>Sequencing: the second part runs only when the first returned.\<close>

definition io_bind :: "'a io \<Rightarrow> ('a \<Rightarrow> 'b io) \<Rightarrow> 'b io" where
  "io_bind m f =
     (case m of
        (t, Returns x) \<Rightarrow> (case f x of (t', r) \<Rightarrow> (t @ t', r))
      | (t, Raises e) \<Rightarrow> (t, Raises e)
      | (t, Blocks) \<Rightarrow> (t, Blocks))"

text \<open>\<^verbatim>\<open>try: m except Exception as e: h(e)\<close>.\<close>

definition io_catch :: "'a io \<Rightarrow> (exn \<Rightarrow> 'a io) \<Rightarrow> 'a io" where
  "io_catch m h =
     (case m of
        (t, Raises e) \<Rightarrow> (case h e of (t', r) \<Rightarrow> (t @ t', r))
      | (t, Returns x) \<Rightarrow> (t, Returns x)
      | (t, Blocks) \<Rightarrow> (t, Blocks))"

text \<open>\<^verbatim>\<open>try: m finally: c\<close>, for a \<open>c\<close> that is a single call which does not raise:
  it runs on return and on exception, and not when \<open>m\<close> never comes back.\<close>

definition io_finally :: "'a io \<Rightarrow> event \<Rightarrow> 'a io" where
  "io_finally m ev =
     (case m of
        (t, Blocks) \<Rightarrow> (t, Blocks)
      | (t, r) \<Rightarrow> (t @ [ev], r))"

subsection \<open>The environment of one session\<close>

datatype sock = Client | Dest

text \<open>
  One pass of the \<^verbatim>\<open>for\<close> loop in \<^verbatim>\<open>relay_data\<close>: the socket that is readable, what
  its \<^verbatim>\<open>recv\<close> does and, when that returned data, what \<^verbatim>\<open>sendall\<close> to the peer does.
\<close>

record step =
  ready :: sock
  recv_out :: recv_result
  send_out :: call_result

text \<open>One pass of the \<^verbatim>\<open>while\<close> loop: \<^verbatim>\<open>select.select\<close> raises, or returns the
  readable sockets.\<close>

datatype round = SelectFail exn | Readable "step list"

text \<open>
  Up to the relay the code is straight-line, so every call site runs at most once in a
  session and the environment has one field for each: the \<^verbatim>\<open>recv\<close> calls of lines 125,
  133, 145, 154, 157, 158 and 165, the \<^verbatim>\<open>sendall\<close> of line 138, \<^verbatim>\<open>socket.socket\<close> on
  line 169 and \<^verbatim>\<open>connect\<close> on line 171. \<^verbatim>\<open>send_reply\<close> is called with each reply code at
  most once, so the outcome of its \<^verbatim>\<open>sendall\<close> (line 186) is given for each code.
  \<open>utf8_decode\<close> stands for \<^verbatim>\<open>bytes.decode('utf-8')\<close> on line 159, with \<open>None\<close> for
  \<^verbatim>\<open>UnicodeDecodeError\<close>. The script of the relay lists the passes of its loop; when it is
  used up, no socket ever becomes readable again.
\<close>

record env =
  greeting_recv :: recv_result
  methods_recv :: recv_result
  greeting_send :: call_result
  header_recv :: recv_result
  ipv4_recv :: recv_result
  len_recv :: recv_result
  name_recv :: recv_result
  utf8_decode :: "byte list \<Rightarrow> string option"
  port_recv :: recv_result
  socket_res :: call_result
  connect_res :: call_result
  reply_send :: "byte \<Rightarrow> call_result"
  relay_script :: "round list"

subsection \<open>Socket calls\<close>

definition client_recv :: "recv_result \<Rightarrow> nat \<Rightarrow> (byte list) io" where
  "client_recv r n =
     (case r of RecvOk data \<Rightarrow> ([ClientRecv n], Returns data) | RecvFail e \<Rightarrow> io_raise e)"

definition call :: "call_result \<Rightarrow> event \<Rightarrow> unit io" where
  "call r ev = (case r of Ok \<Rightarrow> io_emit ev | Fail e \<Rightarrow> io_raise e)"

subsection \<open>\<^verbatim>\<open>struct\<close>, \<^verbatim>\<open>inet_ntoa\<close>\<close>

definition SOCKS_VERSION :: byte where
  "SOCKS_VERSION = 5"

definition BUFFER_SIZE :: nat where
  "BUFFER_SIZE = 4096"

definition pack_H :: "16 word \<Rightarrow> byte list" where
  "pack_H w = [ucast (drop_bit 8 w), ucast w]"

definition pack_I :: "32 word \<Rightarrow> byte list" where
  "pack_I w = [ucast (drop_bit 24 w), ucast (drop_bit 16 w), ucast (drop_bit 8 w), ucast w]"

text \<open>\<^verbatim>\<open>struct.unpack\<close> raises \<^verbatim>\<open>struct.error\<close> unless the buffer has the exact size.\<close>

definition unpack_BB :: "byte list \<Rightarrow> (byte \<times> byte) io" where
  "unpack_BB buf =
     (case buf of
        [a, b] \<Rightarrow> io_return (a, b)
      | _ \<Rightarrow> io_raise (OtherException ''unpack requires a buffer of 2 bytes''))"

definition unpack_BBBB :: "byte list \<Rightarrow> (byte \<times> byte \<times> byte \<times> byte) io" where
  "unpack_BBBB buf =
     (case buf of
        [a, b, c, d] \<Rightarrow> io_return (a, b, c, d)
      | _ \<Rightarrow> io_raise (OtherException ''unpack requires a buffer of 4 bytes''))"

definition unpack_H :: "byte list \<Rightarrow> nat io" where
  "unpack_H buf =
     (case buf of
        [hi, lo] \<Rightarrow> io_return (256 * unat hi + unat lo)
      | _ \<Rightarrow> io_raise (OtherException ''unpack requires a buffer of 2 bytes''))"

definition inet_ntoa :: "byte list \<Rightarrow> host io" where
  "inet_ntoa buf =
     (case buf of
        [a, b, c, d] \<Rightarrow> io_return (IPv4 a b c d)
      | _ \<Rightarrow> io_raise (OtherException ''packed IP wrong length for inet_ntoa''))"

subsection \<open>\<^verbatim>\<open>handle_greeting\<close> (lines 122 to 139)\<close>

definition handle_greeting :: "env \<Rightarrow> bool io" where
  "handle_greeting env =
     io_bind (client_recv (greeting_recv env) 2) (\<lambda>greeting.
     io_bind (unpack_BB greeting) (\<lambda>(version, nmethods).
     if version \<noteq> SOCKS_VERSION then io_return False
     else
       io_bind (client_recv (methods_recv env) (unat nmethods)) (\<lambda>_.
       io_bind (call (greeting_send env) (GreetingReply [SOCKS_VERSION, 0])) (\<lambda>_.
       io_return True))))"

subsection \<open>\<^verbatim>\<open>send_reply\<close> (lines 181 to 186)\<close>

text \<open>\<^verbatim>\<open>struct.pack("!BBBBIH", SOCKS_VERSION, rep_code, 0, 1, 0, 0)\<close>: four single bytes,
  a 32-bit and a 16-bit number in network byte order. Every call passes a literal reply
  code, so the code is a byte.\<close>

definition reply :: "byte \<Rightarrow> byte list" where
  "reply rep_code = [SOCKS_VERSION, rep_code, 0, 1] @ pack_I 0 @ pack_H 0"

definition send_reply :: "env \<Rightarrow> byte \<Rightarrow> unit io" where
  "send_reply env rep_code = call (reply_send env rep_code) (SocksReply (reply rep_code))"

subsection \<open>\<^verbatim>\<open>handle_request\<close> (lines 141 to 179)\<close>

text \<open>Lines 165 to 174, reached with the destination address of either kind. The
  returned pair stands for the connected socket with its address and port.\<close>

definition connect_dest :: "env \<Rightarrow> host \<Rightarrow> (host \<times> nat) option io" where
  "connect_dest env dest_addr =
     io_bind (client_recv (port_recv env) 2) (\<lambda>port_bytes.
     io_bind (unpack_H port_bytes) (\<lambda>dest_port.
     io_bind (call (socket_res env) DestCreated) (\<lambda>_.
     io_bind (call (connect_res env) (DestConnected dest_addr dest_port)) (\<lambda>_.
     io_bind (send_reply env 0) (\<lambda>_.
     io_return (Some (dest_addr, dest_port)))))))"

text \<open>Lines 157 to 159: \<^verbatim>\<open>recv(1)[0]\<close> raises \<^verbatim>\<open>IndexError\<close> on an empty read.\<close>

definition read_domain :: "env \<Rightarrow> host io" where
  "read_domain env =
     io_bind (client_recv (len_recv env) 1) (\<lambda>len_bytes.
     case len_bytes of
       [] \<Rightarrow> io_raise (OtherException ''index out of range'')
     | addr_len # _ \<Rightarrow>
         io_bind (client_recv (name_recv env) (unat addr_len)) (\<lambda>addr_bytes.
         case utf8_decode env addr_bytes of
           None \<Rightarrow> io_raise (OtherException ''invalid utf-8'')
         | Some name \<Rightarrow> io_return (Domain name)))"

definition handle_request :: "env \<Rightarrow> (host \<times> nat) option io" where
  "handle_request env =
     io_catch
       (io_bind (client_recv (header_recv env) 4) (\<lambda>header.
        io_bind (unpack_BBBB header) (\<lambda>(version, cmd, rsv, atyp).
        if version \<noteq> SOCKS_VERSION \<or> cmd \<noteq> 1 then
          io_bind (send_reply env 5) (\<lambda>_. io_return None)
        else if atyp = 1 then
          io_bind (io_bind (client_recv (ipv4_recv env) 4) inet_ntoa) (connect_dest env)
        else if atyp = 3 then
          io_bind (read_domain env) (connect_dest env)
        else
          io_bind (send_reply env 8) (\<lambda>_. io_return None))))
       (\<lambda>e. io_bind (send_reply env 1) (\<lambda>_. io_return None))"

subsection \<open>\<^verbatim>\<open>relay_data\<close> (lines 188 to 217)\<close>

text \<open>The local variables of \<^verbatim>\<open>relay_data\<close>, with the events so far.\<close>

record relay_state =
  events :: "event list"
  bytes_sent :: nat
  bytes_received :: nat

text \<open>How a loop body ends: it goes on, it executes \<^verbatim>\<open>return\<close>, or a call raises.\<close>

datatype flow = Goes_on | Return | Raise exn

text \<open>How the function leaves its loop, when it does.\<close>

datatype ending = By_return | By_raise exn

text \<open>The \<^verbatim>\<open>for\<close> loop over the readable sockets (lines 198 to 208).\<close>

fun relay_for :: "step list \<Rightarrow> relay_state \<Rightarrow> flow \<times> relay_state" where
  "relay_for [] s = (Goes_on, s)"
| "relay_for (st # rest) s =
     (case recv_out st of
        RecvFail e \<Rightarrow> (Raise e, s)
      | RecvOk data \<Rightarrow>
          (let s1 = s\<lparr>events := events s @
                      [if ready st = Client then ClientRecv BUFFER_SIZE else DestRecv BUFFER_SIZE]\<rparr>
           in if data = [] then (Return, s1)
              else
                (case send_out st of
                   Fail e \<Rightarrow> (Raise e, s1)
                 | Ok \<Rightarrow>
                     if ready st = Client then
                       relay_for rest
                         (s1\<lparr>events := events s1 @ [ToDest data],
                             bytes_sent := bytes_sent s1 + length data\<rparr>)
                     else
                       relay_for rest
                         (s1\<lparr>events := events s1 @ [ToClient data],
                             bytes_received := bytes_received s1 + length data\<rparr>))))"

text \<open>The \<^verbatim>\<open>while True\<close> loop (lines 194 to 208). With no pass left in the script,
  \<^verbatim>\<open>select.select\<close> waits for ever: the loop does not end, which is \<open>None\<close>.\<close>

fun relay_while :: "round list \<Rightarrow> relay_state \<Rightarrow> ending option \<times> relay_state" where
  "relay_while [] s = (None, s)"
| "relay_while (SelectFail e # rest) s = (Some (By_raise e), s)"
| "relay_while (Readable steps # rest) s =
     (case relay_for steps s of
        (Goes_on, s') \<Rightarrow> relay_while rest s'
      | (Return, s') \<Rightarrow> (Some By_return, s')
      | (Raise e, s') \<Rightarrow> (Some (By_raise e), s'))"

text \<open>
  The whole function. \<^verbatim>\<open>return\<close> inside the loop and the fall-through after a caught
  \<^verbatim>\<open>ConnectionResetError\<close> both give back the two counters; any other exception is
  raised again; the \<^verbatim>\<open>finally\<close> clause closes the destination socket on each of these.
\<close>

definition relay_data :: "round list \<Rightarrow> (nat \<times> nat) io" where
  "relay_data script =
     (case relay_while script \<lparr>events = [], bytes_sent = 0, bytes_received = 0\<rparr> of
        (None, s) \<Rightarrow> (events s, Blocks)
      | (Some By_return, s) \<Rightarrow>
          (events s @ [DestClosed], Returns (bytes_sent s, bytes_received s))
      | (Some (By_raise (ConnectionResetError m)), s) \<Rightarrow>
          (events s @ [DestClosed], Returns (bytes_sent s, bytes_received s))
      | (Some (By_raise (OtherException m)), s) \<Rightarrow>
          (events s @ [DestClosed], Raises (OtherException m)))"

subsection \<open>\<^verbatim>\<open>run\<close> (lines 92 to 120)\<close>

text \<open>A socket object is true in a condition, so \<^verbatim>\<open>if not dest_socket\<close> only asks
  whether \<^verbatim>\<open>handle_request\<close> returned \<^verbatim>\<open>None\<close>. \<^verbatim>\<open>db_log_start\<close> and \<^verbatim>\<open>db_log_end\<close>
  (lines 36 to 80) catch the errors of the database themselves, so each is a call that
  returns; what the database then holds is outside the model. The calls of \<^verbatim>\<open>logging\<close>
  have no part in any property and are left out.\<close>

definition run_body :: "env \<Rightarrow> unit io" where
  "run_body env =
     io_bind (handle_greeting env) (\<lambda>greeted.
     if \<not> greeted then io_return ()
     else
       io_bind (handle_request env) (\<lambda>req.
       case req of
         None \<Rightarrow> io_return ()
       | Some (dest_addr, dest_port) \<Rightarrow>
           io_bind (io_emit (LogStart dest_addr dest_port)) (\<lambda>_.
           io_bind (relay_data (relay_script env)) (\<lambda>(sent, received).
           io_emit (LogEnd sent received Closed None)))))"

definition run :: "env \<Rightarrow> unit io" where
  "run env =
     io_finally
       (io_catch (run_body env) (\<lambda>e. io_emit (LogEnd 0 0 Error (Some (str e)))))
       ClientClosed"

subsection \<open>Reading a trace\<close>

text \<open>The bytes that were copied in each direction, as the trace shows them.\<close>

fun to_dest_len :: "event \<Rightarrow> nat" where
  "to_dest_len (ToDest data) = length data"
| "to_dest_len _ = 0"

fun to_client_len :: "event \<Rightarrow> nat" where
  "to_client_len (ToClient data) = length data"
| "to_client_len _ = 0"

definition copied_to_dest :: "event list \<Rightarrow> nat" where
  "copied_to_dest t = sum_list (map to_dest_len t)"

definition copied_to_client :: "event list \<Rightarrow> nat" where
  "copied_to_client t = sum_list (map to_client_len t)"

text \<open>Kinds of events: a reply of \<^verbatim>\<open>send_reply\<close>, the two logging calls, a copied chunk,
  and the events that \<^verbatim>\<open>relay_data\<close> can cause.\<close>

fun is_reply :: "event \<Rightarrow> bool" where
  "is_reply (SocksReply _) = True"
| "is_reply _ = False"

fun is_start :: "event \<Rightarrow> bool" where
  "is_start (LogStart _ _) = True"
| "is_start _ = False"

fun is_end :: "event \<Rightarrow> bool" where
  "is_end (LogEnd _ _ _ _) = True"
| "is_end _ = False"

fun moves_bytes :: "event \<Rightarrow> bool" where
  "moves_bytes (ToDest _) = True"
| "moves_bytes (ToClient _) = True"
| "moves_bytes _ = False"

fun in_relay :: "event \<Rightarrow> bool" where
  "in_relay (ClientRecv _) = True"
| "in_relay (DestRecv _) = True"
| "in_relay (ToDest _) = True"
| "in_relay (ToClient _) = True"
| "in_relay DestClosed = True"
| "in_relay _ = False"

text \<open>Every event of a computation has a property.\<close>

definition all_events :: "(event \<Rightarrow> bool) \<Rightarrow> 'a io \<Rightarrow> bool" where
  "all_events P m = list_all P (fst m)"

text \<open>An event that, if it is a reply of \<^verbatim>\<open>send_reply\<close>, carries one of the four reply
  codes that the source passes.\<close>

definition fixed_reply :: "event \<Rightarrow> bool" where
  "fixed_reply ev = (case ev of SocksReply bs \<Rightarrow> bs \<in> reply ` {0, 1, 5, 8} | _ \<Rightarrow> True)"

text \<open>A pass of the \<^verbatim>\<open>for\<close> loop that copies a chunk: \<^verbatim>\<open>recv\<close> returns data that is
  not empty and \<^verbatim>\<open>sendall\<close> returns. A pass of the \<^verbatim>\<open>while\<close> loop in which
  \<^verbatim>\<open>select.select\<close> returns and every readable socket is copied from.\<close>

definition copies :: "step \<Rightarrow> bool" where
  "copies st =
     (case recv_out st of RecvOk data \<Rightarrow> data \<noteq> [] \<and> send_out st = Ok | RecvFail _ \<Rightarrow> False)"

fun round_copies :: "round \<Rightarrow> bool" where
  "round_copies (Readable steps) = list_all copies steps"
| "round_copies (SelectFail _) = False"

text \<open>
  What the relay is to copy, read off the script alone. The loop is left at the first
  \<^verbatim>\<open>select.select\<close> that raises and at the first pass that does not copy, so the passes
  it completes are those before either. \<open>chunks_read who\<close> lists, in order, the chunks
  that \<^verbatim>\<open>recv\<close> delivered on the socket \<open>who\<close> in such passes.
\<close>

fun readable :: "round \<Rightarrow> bool" where
  "readable (Readable _) = True"
| "readable (SelectFail _) = False"

fun steps_of :: "round \<Rightarrow> step list" where
  "steps_of (Readable steps) = steps"
| "steps_of (SelectFail _) = []"

definition copied_steps :: "round list \<Rightarrow> step list" where
  "copied_steps script = takeWhile copies (concat (map steps_of (takeWhile readable script)))"

fun chunk :: "step \<Rightarrow> byte list" where
  "chunk st = (case recv_out st of RecvOk data \<Rightarrow> data | RecvFail _ \<Rightarrow> [])"

definition chunks_read :: "sock \<Rightarrow> step list \<Rightarrow> byte list list" where
  "chunks_read who steps = map chunk (filter (\<lambda>st. ready st = who) steps)"

definition total_length :: "byte list list \<Rightarrow> nat" where
  "total_length cs = sum_list (map length cs)"

text \<open>The chunks that a trace shows as written to the destination, and to the client.\<close>

fun written_to_dest :: "event list \<Rightarrow> byte list list" where
  "written_to_dest [] = []"
| "written_to_dest (ToDest data # t) = data # written_to_dest t"
| "written_to_dest (_ # t) = written_to_dest t"

fun written_to_client :: "event list \<Rightarrow> byte list list" where
  "written_to_client [] = []"
| "written_to_client (ToClient data # t) = data # written_to_client t"
| "written_to_client (_ # t) = written_to_client t"

subsection \<open>Concrete sessions\<close>

text \<open>
  The client asks for \<^verbatim>\<open>93.184.216.34:80\<close>, sends three bytes, gets two bytes back and
  closes. The other concrete sessions below change one field of this one.
\<close>

definition echo_env :: env where
  "echo_env =
     \<lparr>greeting_recv = RecvOk [5, 1], methods_recv = RecvOk [0], greeting_send = Ok,
      header_recv = RecvOk [5, 1, 0, 1], ipv4_recv = RecvOk [93, 184, 216, 34],
      len_recv = RecvOk [], name_recv = RecvOk [], utf8_decode = (\<lambda>_. None),
      port_recv = RecvOk [0, 80], socket_res = Ok, connect_res = Ok,
      reply_send = (\<lambda>_. Ok),
      relay_script =
        [Readable [\<lparr>ready = Client, recv_out = RecvOk [1, 2, 3], send_out = Ok\<rparr>],
         Readable [\<lparr>ready = Dest, recv_out = RecvOk [7, 7], send_out = Ok\<rparr>,
                   \<lparr>ready = Client, recv_out = RecvOk [], send_out = Ok\<rparr>]]\<rparr>"

text \<open>The destination refuses the connection.\<close>

definition refused_env :: env where
  "refused_env =
     echo_env\<lparr>connect_res := Fail (OtherException ''[Errno 111] Connection refused'')\<rparr>"

text \<open>The client sends three bytes, then the destination resets the connection.\<close>

definition reset_env :: env where
  "reset_env = echo_env\<lparr>relay_script :=
     [Readable [\<lparr>ready = Client, recv_out = RecvOk [1, 2, 3], send_out = Ok\<rparr>],
      Readable [\<lparr>ready = Dest,
                 recv_out = RecvFail (ConnectionResetError ''[Errno 104] Connection reset by peer''),
                 send_out = Ok\<rparr>]]\<rparr>"

text \<open>The client sends three bytes, then the answer of the destination cannot be written
  to the client (\<^verbatim>\<open>BrokenPipeError\<close>).\<close>

definition broken_env :: env where
  "broken_env = echo_env\<lparr>relay_script :=
     [Readable [\<lparr>ready = Client, recv_out = RecvOk [1, 2, 3], send_out = Ok\<rparr>],
      Readable [\<lparr>ready = Dest, recv_out = RecvOk [9],
                 send_out = Fail (OtherException ''[Errno 32] Broken pipe'')\<rparr>]]\<rparr>"

text \<open>The client connects and closes without sending anything: \<^verbatim>\<open>recv(2)\<close> returns
  the empty bytes object.\<close>

definition hangup_env :: env where
  "hangup_env = echo_env\<lparr>greeting_recv := RecvOk []\<rparr>"


text \<open>Three bytes go to the destination and two come back, then \<^verbatim>\<open>recv\<close> on the
  client socket raises \<^verbatim>\<open>TimeoutError\<close>.\<close>

definition timeout_env :: env where
  "timeout_env = echo_env\<lparr>relay_script :=
     [Readable [\<lparr>ready = Client, recv_out = RecvOk [1, 2, 3], send_out = Ok\<rparr>],
      Readable [\<lparr>ready = Dest, recv_out = RecvOk [7, 7], send_out = Ok\<rparr>,
                \<lparr>ready = Client,
                 recv_out = RecvFail (OtherException ''[Errno 110] Connection timed out''),
                 send_out = Ok\<rparr>]]\<rparr>"

section \<open>Properties\<close>

lemmas io_defs = io_return_def io_raise_def io_emit_def io_bind_def io_catch_def io_finally_def
  client_recv_def call_def

lemmas run_defs = run_def run_body_def handle_greeting_def handle_request_def connect_dest_def
  read_domain_def send_reply_def unpack_BB_def unpack_BBBB_def unpack_H_def inet_ntoa_def
  SOCKS_VERSION_def relay_data_def BUFFER_SIZE_def

lemma reply_bytes: "reply rep_code = [5, rep_code, 0, 1, 0, 0, 0, 0, 0, 0]"
  by (simp add: reply_def pack_I_def pack_H_def SOCKS_VERSION_def)

subsection \<open>The counters of the relay\<close>

lemma copied_to_dest_append: "copied_to_dest (t @ u) = copied_to_dest t + copied_to_dest u"
  by (simp add: copied_to_dest_def)

lemma copied_to_client_append:
  "copied_to_client (t @ u) = copied_to_client t + copied_to_client u"
  by (simp add: copied_to_client_def)

lemma relay_for_counts:
  "relay_for steps s = (f, s') \<Longrightarrow>
     \<exists>new. events s' = events s @ new
       \<and> bytes_sent s' = bytes_sent s + copied_to_dest new
       \<and> bytes_received s' = bytes_received s + copied_to_client new"
proof (induction steps arbitrary: s)
  case Nil
  then show ?case by (simp add: copied_to_dest_def copied_to_client_def)
next
  case (Cons st rest)
  show ?case
  proof (cases "recv_out st")
    case (RecvFail e)
    with Cons.prems show ?thesis by (simp add: copied_to_dest_def copied_to_client_def)
  next
    case (RecvOk data)
    show ?thesis
    proof (cases "data = []")
      case True
      with RecvOk Cons.prems show ?thesis
        by (auto simp: copied_to_dest_def copied_to_client_def)
    next
      case False
      show ?thesis
      proof (cases "send_out st")
        case (Fail e)
        with RecvOk False Cons.prems show ?thesis
          by (auto simp: copied_to_dest_def copied_to_client_def)
      next
        case Ok
        show ?thesis
        proof (cases "ready st")
          case Client
          with RecvOk False Ok Cons.prems
          have "relay_for rest
                  (s\<lparr>events := events s @ [ClientRecv BUFFER_SIZE, ToDest data],
                     bytes_sent := bytes_sent s + length data\<rparr>) = (f, s')"
            by simp
          from Cons.IH [OF this] show ?thesis
            by (auto simp: copied_to_dest_def copied_to_client_def)
        next
          case Dest
          with RecvOk False Ok Cons.prems
          have "relay_for rest
                  (s\<lparr>events := events s @ [DestRecv BUFFER_SIZE, ToClient data],
                     bytes_received := bytes_received s + length data\<rparr>) = (f, s')"
            by simp
          from Cons.IH [OF this] show ?thesis
            by (auto simp: copied_to_dest_def copied_to_client_def)
        qed
      qed
    qed
  qed
qed

lemma relay_while_counts:
  "relay_while script s = (e, s') \<Longrightarrow>
     \<exists>new. events s' = events s @ new
       \<and> bytes_sent s' = bytes_sent s + copied_to_dest new
       \<and> bytes_received s' = bytes_received s + copied_to_client new"
proof (induction script s rule: relay_while.induct)
  case (1 s)
  then show ?case by (simp add: copied_to_dest_def copied_to_client_def)
next
  case (2 e rest s)
  then show ?case by (simp add: copied_to_dest_def copied_to_client_def)
next
  case (3 steps rest s)
  obtain f s1 where f: "relay_for steps s = (f, s1)" by (cases "relay_for steps s")
  from relay_for_counts [OF f] obtain n1 where n1: "events s1 = events s @ n1"
    "bytes_sent s1 = bytes_sent s + copied_to_dest n1"
    "bytes_received s1 = bytes_received s + copied_to_client n1" by blast
  show ?case
  proof (cases f)
    case Goes_on
    with f "3.prems" have "relay_while rest s1 = (e, s')" by simp
    from "3.IH" [OF f [symmetric] _ this] Goes_on obtain n2 where "events s' = events s1 @ n2"
      "bytes_sent s' = bytes_sent s1 + copied_to_dest n2"
      "bytes_received s' = bytes_received s1 + copied_to_client n2" by blast
    with n1 show ?thesis by (simp add: copied_to_dest_append copied_to_client_append)
  next
    case Return
    with f "3.prems" n1 show ?thesis by auto
  next
    case (Raise x)
    with f "3.prems" n1 show ?thesis by auto
  qed
qed

lemma written_to_dest_append:
  "written_to_dest (t @ u) = written_to_dest t @ written_to_dest u"
  by (induction t rule: written_to_dest.induct) simp_all

lemma written_to_client_append:
  "written_to_client (t @ u) = written_to_client t @ written_to_client u"
  by (induction t rule: written_to_client.induct) simp_all

lemma chunks_read_append: "chunks_read who (xs @ ys) = chunks_read who xs @ chunks_read who ys"
  by (simp add: chunks_read_def)

lemma total_length_append: "total_length (xs @ ys) = total_length xs + total_length ys"
  by (simp add: total_length_def)

lemma copied_steps_simps:
  "copied_steps [] = []"
  "copied_steps (SelectFail e # rest) = []"
  "copied_steps (Readable steps # rest) =
     (if list_all copies steps then steps @ copied_steps rest else takeWhile copies steps)"
  by (auto simp: copied_steps_def takeWhile_append list_all_iff)

text \<open>One run of the \<^verbatim>\<open>for\<close> loop copies the passes up to the first that does not copy,
  each in its own direction, and goes on exactly when all of them copied.\<close>

lemma relay_for_chunks:
  "relay_for steps s = (f, s') \<Longrightarrow>
     bytes_sent s' = bytes_sent s + total_length (chunks_read Client (takeWhile copies steps))
   \<and> bytes_received s' =
       bytes_received s + total_length (chunks_read Dest (takeWhile copies steps))
   \<and> written_to_dest (events s') =
       written_to_dest (events s) @ chunks_read Client (takeWhile copies steps)
   \<and> written_to_client (events s') =
       written_to_client (events s) @ chunks_read Dest (takeWhile copies steps)
   \<and> (f = Goes_on \<longleftrightarrow> list_all copies steps)"
proof (induction steps arbitrary: s)
  case Nil
  then show ?case by (simp add: total_length_def chunks_read_def)
next
  case (Cons st rest)
  show ?case
  proof (cases "copies st")
    case False
    with Cons.prems show ?thesis
      by (auto simp: copies_def total_length_def chunks_read_def Let_def
            written_to_dest_append written_to_client_append BUFFER_SIZE_def
          split: recv_result.splits call_result.splits if_splits)
  next
    case True
    then obtain data where st: "recv_out st = RecvOk data" "data \<noteq> []" "send_out st = Ok"
      by (auto simp: copies_def split: recv_result.splits)
    show ?thesis
    proof (cases "ready st")
      case Client
      with st Cons.prems
      have "relay_for rest
              (s\<lparr>events := events s @ [ClientRecv BUFFER_SIZE, ToDest data],
                 bytes_sent := bytes_sent s + length data\<rparr>) = (f, s')"
        by simp
      from Cons.IH [OF this] True st Client show ?thesis
        by (simp add: total_length_def chunks_read_def written_to_dest_append
              written_to_client_append)
    next
      case Dest
      with st Cons.prems
      have "relay_for rest
              (s\<lparr>events := events s @ [DestRecv BUFFER_SIZE, ToClient data],
                 bytes_received := bytes_received s + length data\<rparr>) = (f, s')"
        by simp
      from Cons.IH [OF this] True st Dest show ?thesis
        by (simp add: total_length_def chunks_read_def written_to_dest_append
              written_to_client_append)
    qed
  qed
qed

lemma relay_while_chunks:
  "relay_while script s = (e, s') \<Longrightarrow>
     bytes_sent s' = bytes_sent s + total_length (chunks_read Client (copied_steps script))
   \<and> bytes_received s' =
       bytes_received s + total_length (chunks_read Dest (copied_steps script))
   \<and> written_to_dest (events s') =
       written_to_dest (events s) @ chunks_read Client (copied_steps script)
   \<and> written_to_client (events s') =
       written_to_client (events s) @ chunks_read Dest (copied_steps script)"
proof (induction script s rule: relay_while.induct)
  case (1 s)
  then show ?case by (simp add: copied_steps_simps total_length_def chunks_read_def)
next
  case (2 e rest s)
  then show ?case by (simp add: copied_steps_simps total_length_def chunks_read_def)
next
  case (3 steps rest s)
  obtain f s1 where f: "relay_for steps s = (f, s1)" by (cases "relay_for steps s")
  note one = relay_for_chunks [OF f]
  show ?case
  proof (cases f)
    case Goes_on
    with one have all: "list_all copies steps" by simp
    then have tw: "takeWhile copies steps = steps" by (simp add: list_all_iff)
    from Goes_on f "3.prems" have "relay_while rest s1 = (e, s')" by simp
    from "3.IH" [OF f [symmetric] _ this] Goes_on one all tw show ?thesis
      by (simp add: copied_steps_simps chunks_read_append total_length_append)
  next
    case Return
    with one have "\<not> list_all copies steps" by simp
    with Return f "3.prems" one show ?thesis by (auto simp: copied_steps_simps)
  next
    case (Raise x)
    with one have "\<not> list_all copies steps" by simp
    with Raise f "3.prems" one show ?thesis by (auto simp: copied_steps_simps)
  qed
qed

text \<open>
  C1, as the code has it. Whenever \<^verbatim>\<open>relay_data\<close> returns, which it does after a read of
  length zero and after a caught \<^verbatim>\<open>ConnectionResetError\<close>, \<open>bytes_sent\<close> is the total
  length of the chunks that \<^verbatim>\<open>recv\<close> delivered on the client socket in the passes the
  loop completed, and these chunks, in this order, are exactly what was written to the
  destination; \<open>bytes_received\<close> is the total length of the chunks read from the
  destination socket in those passes, and these are exactly what was written to the
  client. Throughout the loop, from any state and over any part of the script, each
  counter grows by exactly the length of the chunks copied in its direction meanwhile, so
  that neither ever decreases. (A \<^verbatim>\<open>sendall\<close> that raises counts as having copied
  nothing: Python does not tell how much of the chunk went out.)
\<close>

theorem relay_counters_exact:
  "(\<forall>t sent received.
      relay_data script = (t, Returns (sent, received)) \<longrightarrow>
        sent = total_length (chunks_read Client (copied_steps script))
      \<and> received = total_length (chunks_read Dest (copied_steps script))
      \<and> written_to_dest t = chunks_read Client (copied_steps script)
      \<and> written_to_client t = chunks_read Dest (copied_steps script))
   \<and> (\<forall>s e s'.
      relay_while script s = (e, s') \<longrightarrow>
        bytes_sent s' = bytes_sent s + total_length (chunks_read Client (copied_steps script))
      \<and> bytes_received s' =
          bytes_received s + total_length (chunks_read Dest (copied_steps script))
      \<and> written_to_dest (events s') =
          written_to_dest (events s) @ chunks_read Client (copied_steps script)
      \<and> written_to_client (events s') =
          written_to_client (events s) @ chunks_read Dest (copied_steps script)
      \<and> bytes_sent s \<le> bytes_sent s' \<and> bytes_received s \<le> bytes_received s')"
proof (intro conjI allI impI)
  fix t sent received
  assume r: "relay_data script = (t, Returns (sent, received))"
  let ?s0 = "\<lparr>events = [], bytes_sent = 0, bytes_received = 0\<rparr>"
  obtain e s where w: "relay_while script ?s0 = (e, s)" by (cases "relay_while script ?s0")
  note c = relay_while_chunks [OF w]
  from r w have "t = events s @ [DestClosed] \<and> sent = bytes_sent s \<and> received = bytes_received s"
    by (auto simp: relay_data_def split: option.splits ending.splits exn.splits)
  with c show "sent = total_length (chunks_read Client (copied_steps script))"
    and "received = total_length (chunks_read Dest (copied_steps script))"
    and "written_to_dest t = chunks_read Client (copied_steps script)"
    and "written_to_client t = chunks_read Dest (copied_steps script)"
    by (simp_all add: written_to_dest_append written_to_client_append)
next
  fix s e s'
  assume w: "relay_while script s = (e, s')"
  note c = relay_while_chunks [OF w]
  from c show
    "bytes_sent s' = bytes_sent s + total_length (chunks_read Client (copied_steps script))"
    and "bytes_received s' =
          bytes_received s + total_length (chunks_read Dest (copied_steps script))"
    and "written_to_dest (events s') =
          written_to_dest (events s) @ chunks_read Client (copied_steps script)"
    and "written_to_client (events s') =
          written_to_client (events s) @ chunks_read Dest (copied_steps script)"
    by simp_all
  from c show "bytes_sent s \<le> bytes_sent s'" and "bytes_received s \<le> bytes_received s'"
    by simp_all
qed

lemma echo_relay:
  "relay_data (relay_script echo_env) =
     ([ClientRecv 4096, ToDest [1, 2, 3], DestRecv 4096, ToClient [7, 7], ClientRecv 4096,
       DestClosed], Returns (3, 2))"
  by (simp add: echo_env_def relay_data_def BUFFER_SIZE_def)

lemma echo_copied:
  "chunks_read Client (copied_steps (relay_script echo_env)) = [[1, 2, 3]]"
  "chunks_read Dest (copied_steps (relay_script echo_env)) = [[7, 7]]"
  by (simp_all add: echo_env_def copied_steps_def chunks_read_def copies_def)

theorem relay_counters_exact_witness:
  "relay_data (relay_script echo_env) =
     ([ClientRecv 4096, ToDest [1, 2, 3], DestRecv 4096, ToClient [7, 7], ClientRecv 4096,
       DestClosed], Returns (3, 2))
   \<and> chunks_read Client (copied_steps (relay_script echo_env)) = [[1, 2, 3]]
   \<and> chunks_read Dest (copied_steps (relay_script echo_env)) = [[7, 7]]
   \<and> 3 = total_length (chunks_read Client (copied_steps (relay_script echo_env)))
   \<and> 2 = total_length (chunks_read Dest (copied_steps (relay_script echo_env)))
   \<and> written_to_dest [ClientRecv 4096, ToDest [1, 2, 3], DestRecv 4096, ToClient [7, 7],
        ClientRecv 4096, DestClosed] = [[1, 2, 3]]
   \<and> written_to_client [ClientRecv 4096, ToDest [1, 2, 3], DestRecv 4096, ToClient [7, 7],
        ClientRecv 4096, DestClosed] = [[7, 7]]"
  using relay_counters_exact [of "relay_script echo_env"] echo_relay echo_copied
  by (simp add: total_length_def)

text \<open>
  C1 as stated fails for a session that is completed by an exception in the relay other
  than a reset: three bytes went to the destination and two to the client, then \<^verbatim>\<open>recv\<close>
  raises; \<^verbatim>\<open>relay_data\<close> closes the destination socket and raises again (line 213), so
  it returns no counters at all, and the end record of the session carries 0 and 0.
\<close>

theorem relay_raise_returns_no_counters:
  "relay_data (relay_script timeout_env) =
     ([ClientRecv 4096, ToDest [1, 2, 3], DestRecv 4096, ToClient [7, 7], DestClosed],
      Raises (OtherException ''[Errno 110] Connection timed out''))
   \<and> run timeout_env =
     ([ClientRecv 2, ClientRecv 1, GreetingReply [5, 0], ClientRecv 4, ClientRecv 4, ClientRecv 2,
       DestCreated, DestConnected (IPv4 93 184 216 34) 80,
       SocksReply [5, 0, 0, 1, 0, 0, 0, 0, 0, 0], LogStart (IPv4 93 184 216 34) 80,
       ClientRecv 4096, ToDest [1, 2, 3], DestRecv 4096, ToClient [7, 7], DestClosed,
       LogEnd 0 0 Error (Some ''[Errno 110] Connection timed out''), ClientClosed],
      Returns ())"
  by (simp add: timeout_env_def echo_env_def run_defs io_defs reply_bytes)

subsection \<open>The shape of a session\<close>

text \<open>Once \<^verbatim>\<open>handle_greeting\<close> has returned \<^verbatim>\<open>True\<close>, the rest of \<^verbatim>\<open>run\<close> depends on
  what \<^verbatim>\<open>handle_request\<close> and then \<^verbatim>\<open>relay_data\<close> do.\<close>

lemma greeted:
  "handle_greeting env = (tg, Returns True) \<Longrightarrow> handle_request env = (tq, r) \<Longrightarrow>
   run env =
     (case r of
        Returns None \<Rightarrow> (tg @ tq @ [ClientClosed], Returns ())
      | Returns (Some (a, p)) \<Rightarrow>
          (case relay_data (relay_script env) of
             (tr, Returns (sent, received)) \<Rightarrow>
               (tg @ tq @ LogStart a p # tr @ [LogEnd sent received Closed None, ClientClosed],
                Returns ())
           | (tr, Raises e) \<Rightarrow>
               (tg @ tq @ LogStart a p # tr @ [LogEnd 0 0 Error (Some (str e)), ClientClosed],
                Returns ())
           | (tr, Blocks) \<Rightarrow> (tg @ tq @ LogStart a p # tr, Blocks))
      | Raises e \<Rightarrow> (tg @ tq @ [LogEnd 0 0 Error (Some (str e)), ClientClosed], Returns ())
      | Blocks \<Rightarrow> (tg @ tq, Blocks))"
  by (simp add: run_def run_body_def io_defs split: result.splits prod.splits option.splits)

lemma echo_greeting:
  "handle_greeting (echo_env\<lparr>header_recv := h\<rparr>) =
     ([ClientRecv 2, ClientRecv 1, GreetingReply [5, 0]], Returns True)"
  by (simp add: echo_env_def handle_greeting_def unpack_BB_def SOCKS_VERSION_def io_defs)

subsection \<open>Refusals\<close>

text \<open>
  C5. A greeting whose first byte is not 5 ends the session at once: the only calls are
  the \<^verbatim>\<open>recv(2)\<close> of the greeting and the closing of the client socket, so nothing is
  written to the client, no request is read and no destination socket exists. That is the
  whole trace when \<^verbatim>\<open>recv(2)\<close> delivered both bytes; when it delivered the version byte
  alone, \<^verbatim>\<open>struct.unpack\<close> raises before the version is looked at, and the handler of
  \<^verbatim>\<open>run\<close> adds its logging call, still with no byte written to the client.
\<close>

theorem bad_greeting_version_no_reply:
  assumes "greeting_recv env = RecvOk (version # rest)" and "version \<noteq> 5"
  shows "run env =
    (if length rest = 1 then ([ClientRecv 2, ClientClosed], Returns ())
     else ([ClientRecv 2, LogEnd 0 0 Error (Some ''unpack requires a buffer of 2 bytes''),
            ClientClosed], Returns ()))"
  using assms
  by (cases rest; cases "tl rest") (simp_all add: run_defs io_defs)

theorem bad_greeting_version_no_reply_witness:
  "greeting_recv (echo_env\<lparr>greeting_recv := RecvOk [4, 1]\<rparr>) = RecvOk [4, 1]
   \<and> run (echo_env\<lparr>greeting_recv := RecvOk [4, 1]\<rparr>) = ([ClientRecv 2, ClientClosed], Returns ())"
  using bad_greeting_version_no_reply [of "echo_env\<lparr>greeting_recv := RecvOk [4, 1]\<rparr>" 4 "[1]"]
  by simp

lemma request_refused_5:
  assumes "header_recv env = RecvOk [version, cmd, rsv, atyp]"
    and "version \<noteq> 5 \<or> cmd \<noteq> 1" and "reply_send env 5 = Ok"
  shows "handle_request env =
    ([ClientRecv 4, SocksReply [5, 5, 0, 1, 0, 0, 0, 0, 0, 0]], Returns None)"
  using assms
  by (auto simp add: handle_request_def send_reply_def unpack_BBBB_def SOCKS_VERSION_def
        io_defs reply_bytes)

lemma request_refused_8:
  assumes "header_recv env = RecvOk [5, 1, rsv, atyp]"
    and "atyp \<noteq> 1" and "atyp \<noteq> 3" and "reply_send env 8 = Ok"
  shows "handle_request env =
    ([ClientRecv 4, SocksReply [5, 8, 0, 1, 0, 0, 0, 0, 0, 0]], Returns None)"
  using assms
  by (auto simp add: handle_request_def send_reply_def unpack_BBBB_def SOCKS_VERSION_def
        io_defs reply_bytes)

text \<open>
  C6. After a completed greeting, with a request header of four bytes and a client that
  takes the reply: a command other than 1 is answered with reply code 5, and the session
  ends there; a request with version 5, command 1 and an address type other than 1 and 3
  is answered with reply code 8, and the session ends there. In both cases the trace is
  the greeting, the read of the header, the reply and the closing of the client socket:
  no destination socket, no logging call, no relay. The command is checked before the
  address type, so the second half speaks of requests that passed the first check.
\<close>

theorem unsupported_request_replies:
  assumes "handle_greeting env = (tg, Returns True)"
    and "header_recv env = RecvOk [version, cmd, rsv, atyp]"
  shows "(cmd \<noteq> 1 \<and> reply_send env 5 = Ok \<longrightarrow>
            run env =
              (tg @ [ClientRecv 4, SocksReply [5, 5, 0, 1, 0, 0, 0, 0, 0, 0], ClientClosed],
               Returns ()))
       \<and> (version = 5 \<and> cmd = 1 \<and> atyp \<noteq> 1 \<and> atyp \<noteq> 3 \<and> reply_send env 8 = Ok \<longrightarrow>
            run env =
              (tg @ [ClientRecv 4, SocksReply [5, 8, 0, 1, 0, 0, 0, 0, 0, 0], ClientClosed],
               Returns ()))"
proof (intro conjI impI)
  assume "cmd \<noteq> 1 \<and> reply_send env 5 = Ok"
  with assms(2) have "handle_request env =
      ([ClientRecv 4, SocksReply [5, 5, 0, 1, 0, 0, 0, 0, 0, 0]], Returns None)"
    by (intro request_refused_5) auto
  from greeted [OF assms(1) this]
  show "run env =
    (tg @ [ClientRecv 4, SocksReply [5, 5, 0, 1, 0, 0, 0, 0, 0, 0], ClientClosed], Returns ())"
    by simp
next
  assume "version = 5 \<and> cmd = 1 \<and> atyp \<noteq> 1 \<and> atyp \<noteq> 3 \<and> reply_send env 8 = Ok"
  with assms(2) have "handle_request env =
      ([ClientRecv 4, SocksReply [5, 8, 0, 1, 0, 0, 0, 0, 0, 0]], Returns None)"
    by (intro request_refused_8) auto
  from greeted [OF assms(1) this]
  show "run env =
    (tg @ [ClientRecv 4, SocksReply [5, 8, 0, 1, 0, 0, 0, 0, 0, 0], ClientClosed], Returns ())"
    by simp
qed

theorem unsupported_request_replies_witness:
  "run (echo_env\<lparr>header_recv := RecvOk [5, 2, 0, 1]\<rparr>) =
     ([ClientRecv 2, ClientRecv 1, GreetingReply [5, 0], ClientRecv 4,
       SocksReply [5, 5, 0, 1, 0, 0, 0, 0, 0, 0], ClientClosed], Returns ())
   \<and> run (echo_env\<lparr>header_recv := RecvOk [5, 1, 0, 4]\<rparr>) =
     ([ClientRecv 2, ClientRecv 1, GreetingReply [5, 0], ClientRecv 4,
       SocksReply [5, 8, 0, 1, 0, 0, 0, 0, 0, 0], ClientClosed], Returns ())"
  using unsupported_request_replies [OF echo_greeting, of "RecvOk [5, 2, 0, 1]" 5 2 0 1]
        unsupported_request_replies [OF echo_greeting, of "RecvOk [5, 1, 0, 4]" 5 1 0 4]
  by (simp add: echo_env_def)

text \<open>
  C10. After a completed greeting, a request header whose version byte is not 5 is
  answered with reply code 5, whatever its command, also \<^verbatim>\<open>CONNECT\<close>: line 148 tests
  version and command in one condition. The session ends after that reply, with no
  destination socket and no relay. A bad version in the greeting, by contrast, gets no
  byte at all (C5).
\<close>

theorem bad_request_version_reply_5:
  assumes "handle_greeting env = (tg, Returns True)"
    and "header_recv env = RecvOk [version, cmd, rsv, atyp]"
    and "version \<noteq> 5"
    and "reply_send env 5 = Ok"
  shows "run env =
    (tg @ [ClientRecv 4, SocksReply [5, 5, 0, 1, 0, 0, 0, 0, 0, 0], ClientClosed], Returns ())"
proof -
  from assms(2-4) have "handle_request env =
      ([ClientRecv 4, SocksReply [5, 5, 0, 1, 0, 0, 0, 0, 0, 0]], Returns None)"
    by (intro request_refused_5) auto
  from greeted [OF assms(1) this] show ?thesis by simp
qed

theorem bad_request_version_reply_5_witness:
  "run (echo_env\<lparr>header_recv := RecvOk [4, 1, 0, 1]\<rparr>) =
     ([ClientRecv 2, ClientRecv 1, GreetingReply [5, 0], ClientRecv 4,
       SocksReply [5, 5, 0, 1, 0, 0, 0, 0, 0, 0], ClientClosed], Returns ())"
  using bad_request_version_reply_5 [OF echo_greeting, of "RecvOk [4, 1, 0, 1]" 4 1 0 1]
  by (simp add: echo_env_def)

subsection \<open>The events of composed computations\<close>

lemma all_events_bind:
  "all_events P m \<Longrightarrow> (\<And>x. all_events P (f x)) \<Longrightarrow> all_events P (io_bind m f)"
proof -
  assume m: "all_events P m" and f: "\<And>x. all_events P (f x)"
  obtain t r where tr: "m = (t, r)" by (cases m)
  show ?thesis
  proof (cases r)
    case (Returns x)
    obtain t' r' where fx: "f x = (t', r')" by (cases "f x")
    from f [of x] fx have "list_all P t'" by (simp add: all_events_def)
    with m tr Returns fx show ?thesis by (simp add: all_events_def io_bind_def)
  qed (use m tr in \<open>simp_all add: all_events_def io_bind_def\<close>)
qed

lemma all_events_catch:
  "all_events P m \<Longrightarrow> (\<And>e. all_events P (h e)) \<Longrightarrow> all_events P (io_catch m h)"
proof -
  assume m: "all_events P m" and h: "\<And>e. all_events P (h e)"
  obtain t r where tr: "m = (t, r)" by (cases m)
  show ?thesis
  proof (cases r)
    case (Raises e)
    obtain t' r' where he: "h e = (t', r')" by (cases "h e")
    from h [of e] he have "list_all P t'" by (simp add: all_events_def)
    with m tr Raises he show ?thesis by (simp add: all_events_def io_catch_def)
  qed (use m tr in \<open>simp_all add: all_events_def io_catch_def\<close>)
qed

lemma all_events_simps:
  "all_events P (io_return x)" "all_events P (io_raise e)"
  "P ev \<Longrightarrow> all_events P (io_emit ev)"
  "P (ClientRecv n) \<Longrightarrow> all_events P (client_recv r n)"
  "P ev \<Longrightarrow> all_events P (call c ev)"
  "all_events P (unpack_BB buf)" "all_events P (unpack_BBBB buf)" "all_events P (unpack_H buf)"
  "all_events P (inet_ntoa buf)"
  by (auto simp: all_events_def io_defs unpack_BB_def unpack_BBBB_def unpack_H_def inet_ntoa_def
      split: recv_result.splits call_result.splits list.splits)

lemma all_events_mono: "all_events P m \<Longrightarrow> (\<And>ev. P ev \<Longrightarrow> Q ev) \<Longrightarrow> all_events Q m"
  by (auto simp: all_events_def list_all_iff)

lemma handle_greeting_events:
  assumes "\<And>n. P (ClientRecv n)" and "P (GreetingReply [5, 0])"
  shows "all_events P (handle_greeting env)"
  unfolding handle_greeting_def
  by (intro all_events_bind all_events_simps assms allI impI conjI
      | simp add: all_events_simps assms SOCKS_VERSION_def split: prod.splits)+

lemma handle_request_events:
  assumes "\<And>n. P (ClientRecv n)" and "P DestCreated" and "\<And>a p. P (DestConnected a p)"
    and "\<And>rep. rep \<in> {0, 1, 5, 8} \<Longrightarrow> P (SocksReply (reply rep))"
  shows "all_events P (handle_request env)"
  unfolding handle_request_def connect_dest_def read_domain_def send_reply_def
  by (intro all_events_bind all_events_catch all_events_simps assms allI impI conjI
      | simp add: all_events_simps assms split: prod.splits list.splits option.splits)+

lemma relay_for_in_relay:
  "relay_for steps s = (f, s') \<Longrightarrow> list_all in_relay (events s) \<Longrightarrow>
     list_all in_relay (events s')"
  by (induction steps arbitrary: s)
     (auto simp: Let_def split: recv_result.splits call_result.splits if_splits)

lemma relay_while_in_relay:
  "relay_while script s = (e, s') \<Longrightarrow> list_all in_relay (events s) \<Longrightarrow>
     list_all in_relay (events s')"
proof (induction script s rule: relay_while.induct)
  case (3 steps rest s)
  obtain f s1 where f: "relay_for steps s = (f, s1)" by (cases "relay_for steps s")
  from relay_for_in_relay [OF f "3.prems"(2)] have s1: "list_all in_relay (events s1)" .
  show ?case
  proof (cases f)
    case Goes_on
    with f "3.prems" have "relay_while rest s1 = (e, s')" by simp
    from "3.IH" [OF f [symmetric] _ this s1] Goes_on show ?thesis by simp
  next
    case Return
    with f "3.prems" s1 show ?thesis by auto
  next
    case (Raise x)
    with f "3.prems" s1 show ?thesis by auto
  qed
qed simp_all

lemma relay_data_in_relay: "all_events in_relay (relay_data script)"
proof -
  let ?s0 = "\<lparr>events = [], bytes_sent = 0, bytes_received = 0\<rparr>"
  obtain e s where w: "relay_while script ?s0 = (e, s)" by (cases "relay_while script ?s0")
  from relay_while_in_relay [OF w] have "list_all in_relay (events s)" by simp
  with w show ?thesis
    by (auto simp: all_events_def relay_data_def split: option.splits ending.splits exn.splits)
qed

lemma in_relay_not: "in_relay ev \<Longrightarrow> \<not> is_reply ev \<and> \<not> is_start ev \<and> \<not> is_end ev"
  by (cases ev) simp_all

subsection \<open>The layout of the replies\<close>

lemma run_fixed_reply: "all_events fixed_reply (run env)"
proof -
  have g: "all_events fixed_reply (handle_greeting env)"
    by (rule handle_greeting_events) (simp_all add: fixed_reply_def)
  have q: "all_events fixed_reply (handle_request env)"
    by (rule handle_request_events) (auto simp: fixed_reply_def)
  have r: "all_events fixed_reply (relay_data (relay_script env))"
    by (rule all_events_mono [OF relay_data_in_relay])
       (auto simp: fixed_reply_def split: event.splits)
  have b: "all_events fixed_reply (run_body env)"
    unfolding run_body_def
    by (intro all_events_bind all_events_simps g q r allI impI conjI
        | simp add: all_events_simps fixed_reply_def split: prod.splits option.splits)+
  have c: "all_events fixed_reply
      (io_catch (run_body env) (\<lambda>e. io_emit (LogEnd 0 0 Error (Some (str e)))))"
    by (intro all_events_catch b) (simp add: all_events_def io_defs fixed_reply_def)
  then show ?thesis
    by (cases "io_catch (run_body env) (\<lambda>e. io_emit (LogEnd 0 0 Error (Some (str e))))";
        cases "snd (io_catch (run_body env) (\<lambda>e. io_emit (LogEnd 0 0 Error (Some (str e)))))")
       (simp_all add: run_def io_finally_def all_events_def fixed_reply_def)
qed

lemma echo_run:
  "run echo_env =
     ([ClientRecv 2, ClientRecv 1, GreetingReply [5, 0], ClientRecv 4, ClientRecv 4, ClientRecv 2,
       DestCreated, DestConnected (IPv4 93 184 216 34) 80,
       SocksReply [5, 0, 0, 1, 0, 0, 0, 0, 0, 0], LogStart (IPv4 93 184 216 34) 80,
       ClientRecv 4096, ToDest [1, 2, 3], DestRecv 4096, ToClient [7, 7], ClientRecv 4096,
       DestClosed, LogEnd 3 2 Closed None, ClientClosed], Returns ())"
  by (simp add: echo_env_def run_defs io_defs reply_bytes)

text \<open>
  C9. In every session, whatever the environment does, each reply that \<^verbatim>\<open>send_reply\<close>
  writes is ten bytes long and reads: version 5, a reply code among 0, 1, 5 and 8, a
  reserved byte 0, address type 1, the address 0.0.0.0 and the port 0. Neither the
  address type of the request nor the local end of the outbound connection goes into it.
\<close>

theorem socks_reply_layout:
  "SocksReply bs \<in> set (fst (run env)) \<longrightarrow>
     length bs = 10 \<and> (\<exists>rep \<in> {0, 1, 5, 8}. bs = [5, rep, 0, 1, 0, 0, 0, 0, 0, 0])"
proof
  assume "SocksReply bs \<in> set (fst (run env))"
  with run_fixed_reply [of env] have "fixed_reply (SocksReply bs)"
    by (simp add: all_events_def list_all_iff)
  then show "length bs = 10 \<and> (\<exists>rep \<in> {0, 1, 5, 8}. bs = [5, rep, 0, 1, 0, 0, 0, 0, 0, 0])"
    by (auto simp: fixed_reply_def reply_bytes)
qed

theorem socks_reply_layout_witness:
  "SocksReply [5, 0, 0, 1, 0, 0, 0, 0, 0, 0] \<in> set (fst (run echo_env))
   \<and> length [5, 0, 0, 1, 0, 0, 0, 0, 0, 0 :: byte] = 10
   \<and> (\<exists>rep \<in> {0, 1, 5, 8}.
        [5, 0, 0, 1, 0, 0, 0, 0, 0, 0 :: byte] = [5, rep, 0, 1, 0, 0, 0, 0, 0, 0])"
  using socks_reply_layout [of "[5, 0, 0, 1, 0, 0, 0, 0, 0, 0]" echo_env]
  by (simp add: echo_run)

subsection \<open>A request that is served\<close>

lemma greeting_accepted:
  assumes "greeting_recv env = RecvOk [5, nmethods]" and "methods_recv env = RecvOk methods"
    and "greeting_send env = Ok"
  shows "handle_greeting env =
    ([ClientRecv 2, ClientRecv (unat nmethods), GreetingReply [5, 0]], Returns True)"
  using assms by (simp add: handle_greeting_def unpack_BB_def SOCKS_VERSION_def io_defs)

lemma request_connected:
  assumes "header_recv env = RecvOk [5, 1, rsv, atyp]"
    and "atyp = 1 \<and> ipv4_recv env = RecvOk [a, b, c, d] \<and> dest_addr = IPv4 a b c d
       \<or> atyp = 3 \<and> len_recv env = RecvOk [addr_len] \<and> name_recv env = RecvOk name
            \<and> utf8_decode env name = Some decoded \<and> dest_addr = Domain decoded"
    and "port_recv env = RecvOk [hi, lo]"
    and "socket_res env = Ok" and "connect_res env = Ok" and "reply_send env 0 = Ok"
  shows "handle_request env =
    (ClientRecv 4
       # (if atyp = 1 then [ClientRecv 4] else [ClientRecv 1, ClientRecv (unat addr_len)])
       @ [ClientRecv 2, DestCreated, DestConnected dest_addr (256 * unat hi + unat lo),
          SocksReply [5, 0, 0, 1, 0, 0, 0, 0, 0, 0]],
     Returns (Some (dest_addr, 256 * unat hi + unat lo)))"
  using assms
  by (auto simp add: handle_request_def connect_dest_def read_domain_def send_reply_def
        unpack_BBBB_def unpack_H_def inet_ntoa_def SOCKS_VERSION_def io_defs reply_bytes)

lemma request_unreachable:
  assumes "header_recv env = RecvOk [5, 1, rsv, atyp]"
    and "atyp = 1 \<and> ipv4_recv env = RecvOk [a, b, c, d] \<and> dest_addr = IPv4 a b c d
       \<or> atyp = 3 \<and> len_recv env = RecvOk [addr_len] \<and> name_recv env = RecvOk name
            \<and> utf8_decode env name = Some decoded \<and> dest_addr = Domain decoded"
    and "port_recv env = RecvOk [hi, lo]"
    and "socket_res env = Ok" and "connect_res env = Fail e" and "reply_send env 1 = Ok"
  shows "handle_request env =
    (ClientRecv 4
       # (if atyp = 1 then [ClientRecv 4] else [ClientRecv 1, ClientRecv (unat addr_len)])
       @ [ClientRecv 2, DestCreated, SocksReply [5, 1, 0, 1, 0, 0, 0, 0, 0, 0]],
     Returns None)"
  using assms
  by (auto simp add: handle_request_def connect_dest_def read_domain_def send_reply_def
        unpack_BBBB_def unpack_H_def inet_ntoa_def SOCKS_VERSION_def io_defs reply_bytes)

text \<open>
  C2. Take a session in which the greeting is completed, the request is a well-formed
  \<^verbatim>\<open>CONNECT\<close> (version 5, command 1, an IPv4 address or a name that decodes, a port of
  two bytes), the destination socket is created and connects, and the client takes the
  success reply. Then the trace of \<^verbatim>\<open>run\<close> has the reply with code 0 immediately
  followed by the start record for that destination and port; before them no chunk has
  been copied and there is no reply, no start and no end record; after them there is no
  further reply or start record, and there is exactly one end record, unless the relay
  never comes back, when there is none.
\<close>

theorem connect_reply_then_start_record:
  assumes "greeting_recv env = RecvOk [5, nmethods]" and "methods_recv env = RecvOk methods"
    and "greeting_send env = Ok"
    and "header_recv env = RecvOk [5, 1, rsv, atyp]"
    and "atyp = 1 \<and> ipv4_recv env = RecvOk [a, b, c, d] \<and> dest_addr = IPv4 a b c d
       \<or> atyp = 3 \<and> len_recv env = RecvOk [addr_len] \<and> name_recv env = RecvOk name
            \<and> utf8_decode env name = Some decoded \<and> dest_addr = Domain decoded"
    and "port_recv env = RecvOk [hi, lo]"
    and "socket_res env = Ok" and "connect_res env = Ok" and "reply_send env 0 = Ok"
  shows "\<exists>before after.
      fst (run env) =
        before @ [SocksReply [5, 0, 0, 1, 0, 0, 0, 0, 0, 0],
                  LogStart dest_addr (256 * unat hi + unat lo)] @ after
    \<and> list_all (\<lambda>ev. \<not> moves_bytes ev \<and> \<not> is_reply ev \<and> \<not> is_start ev \<and> \<not> is_end ev) before
    \<and> list_all (\<lambda>ev. \<not> is_reply ev \<and> \<not> is_start ev) after
    \<and> length (filter is_end after) = (if snd (run env) = Blocks then 0 else 1)"
proof -
  let ?port = "256 * unat hi + unat lo"
  let ?reply = "SocksReply [5, 0, 0, 1, 0, 0, 0, 0, 0, 0]"
  let ?before = "[ClientRecv 2, ClientRecv (unat nmethods), GreetingReply [5, 0], ClientRecv 4]
       @ (if atyp = 1 then [ClientRecv 4] else [ClientRecv 1, ClientRecv (unat addr_len)])
       @ [ClientRecv 2, DestCreated, DestConnected dest_addr ?port]"
  obtain tr r where rel: "relay_data (relay_script env) = (tr, r)"
    by (cases "relay_data (relay_script env)")
  from relay_data_in_relay [of "relay_script env"] rel have "list_all in_relay tr"
    by (simp add: all_events_def)
  then have tr: "list_all (\<lambda>ev. \<not> is_reply ev \<and> \<not> is_start ev) tr" "filter is_end tr = []"
    by (auto simp: list_all_iff filter_empty_conv dest: in_relay_not)
  let ?after = "tr @
      (case r of
         Returns (sent, received) \<Rightarrow> [LogEnd sent received Closed None, ClientClosed]
       | Raises e \<Rightarrow> [LogEnd 0 0 Error (Some (str e)), ClientClosed]
       | Blocks \<Rightarrow> [])"
  have run: "run env =
      (?before @ [?reply, LogStart dest_addr ?port] @ ?after,
       case r of Blocks \<Rightarrow> Blocks | _ \<Rightarrow> Returns ())"
    using greeted [OF greeting_accepted [OF assms(1-3)] request_connected [OF assms(4-9)]] rel
    by (simp split: result.splits prod.splits)
  have "fst (run env) = ?before @ [?reply, LogStart dest_addr ?port] @ ?after"
    by (simp only: run fst_conv)
  moreover have
    "list_all (\<lambda>ev. \<not> moves_bytes ev \<and> \<not> is_reply ev \<and> \<not> is_start ev \<and> \<not> is_end ev) ?before"
    by simp
  moreover have "list_all (\<lambda>ev. \<not> is_reply ev \<and> \<not> is_start ev) ?after"
    using tr(1) by (simp split: result.splits prod.splits)
  moreover have "length (filter is_end ?after) = (if snd (run env) = Blocks then 0 else 1)"
    using tr(2) by (simp add: run split: result.splits prod.splits)
  ultimately show ?thesis by blast
qed

theorem connect_reply_then_start_record_witness:
  "greeting_recv echo_env = RecvOk [5, 1] \<and> header_recv echo_env = RecvOk [5, 1, 0, 1]
   \<and> connect_res echo_env = Ok
   \<and> (\<exists>before after.
        fst (run echo_env) =
          before @ [SocksReply [5, 0, 0, 1, 0, 0, 0, 0, 0, 0], LogStart (IPv4 93 184 216 34) 80]
            @ after
      \<and> list_all (\<lambda>ev. \<not> moves_bytes ev \<and> \<not> is_reply ev \<and> \<not> is_start ev \<and> \<not> is_end ev) before
      \<and> list_all (\<lambda>ev. \<not> is_reply ev \<and> \<not> is_start ev) after
      \<and> length (filter is_end after) = 1)"
  using connect_reply_then_start_record
          [of echo_env 1 "[0]" 0 1 93 184 216 34 "IPv4 93 184 216 34" 0 "[]" "[]" 0 80]
  by (simp add: echo_env_def echo_run [unfolded echo_env_def])

subsection \<open>How the relay ends\<close>

lemma relay_for_copies:
  "list_all copies good \<Longrightarrow> \<exists>s'. relay_for (good @ rest) s = relay_for rest s'"
proof (induction good arbitrary: s)
  case Nil
  then show ?case by auto
next
  case (Cons st good)
  from Cons.prems obtain data
    where st: "recv_out st = RecvOk data" "data \<noteq> []" "send_out st = Ok"
    by (auto simp: copies_def split: recv_result.splits)
  from Cons.prems have g: "list_all copies good" by simp
  show ?case
  proof (cases "ready st")
    case Client
    with st Cons.IH [OF g] show ?thesis by (simp add: Let_def)
  next
    case Dest
    with st Cons.IH [OF g] show ?thesis by (simp add: Let_def)
  qed
qed

lemma relay_for_eof:
  assumes "list_all copies good" and "recv_out eof = RecvOk []"
  shows "\<exists>s'. relay_for (good @ eof # others) s = (Return, s')"
proof -
  from relay_for_copies [OF assms(1), of "eof # others" s]
  obtain s1 where "relay_for (good @ eof # others) s = relay_for (eof # others) s1" by blast
  with assms(2) show ?thesis by (simp add: Let_def)
qed

lemma relay_for_all_copies:
  assumes "list_all copies good"
  shows "\<exists>s'. relay_for good s = (Goes_on, s')"
  using relay_for_copies [OF assms, of "[]" s] by simp

lemma relay_while_copies:
  "list_all round_copies before \<Longrightarrow>
     \<exists>s'. relay_while (before @ rest) s = relay_while rest s'"
proof (induction before arbitrary: s)
  case Nil
  then show ?case by auto
next
  case (Cons r before)
  from Cons.prems obtain steps where r: "r = Readable steps" "list_all copies steps"
    by (cases r) auto
  from relay_for_all_copies [OF r(2), of s]
  obtain s1 where "relay_for steps s = (Goes_on, s1)" by blast
  moreover from Cons.prems have "list_all round_copies before" by simp
  from Cons.IH [OF this, of s1]
  obtain s2 where "relay_while (before @ rest) s1 = relay_while rest s2" by blast
  ultimately show ?case using r(1) by auto
qed

lemma relay_while_eof:
  assumes "list_all round_copies before" and "list_all copies good"
    and "recv_out eof = RecvOk []"
  shows "\<exists>s'. relay_while (before @ Readable (good @ eof # others) # later) s =
                (Some By_return, s')"
proof -
  from relay_while_copies [OF assms(1), of "Readable (good @ eof # others) # later" s]
  obtain s1 where a: "relay_while (before @ Readable (good @ eof # others) # later) s
      = relay_while (Readable (good @ eof # others) # later) s1" by blast
  from relay_for_eof [OF assms(2,3), of others s1]
  obtain s2 where "relay_for (good @ eof # others) s1 = (Return, s2)" by blast
  with a show ?thesis by simp
qed

lemma relay_data_ended:
  assumes "relay_while script \<lparr>events = [], bytes_sent = 0, bytes_received = 0\<rparr> = (Some e, s)"
  shows "relay_data script =
    (events s @ [DestClosed],
     case e of
       By_return \<Rightarrow> Returns (copied_to_dest (events s), copied_to_client (events s))
     | By_raise (ConnectionResetError m) \<Rightarrow>
         Returns (copied_to_dest (events s), copied_to_client (events s))
     | By_raise (OtherException m) \<Rightarrow> Raises (OtherException m))"
proof -
  from relay_while_counts [OF assms]
  have "bytes_sent s = copied_to_dest (events s)"
    "bytes_received s = copied_to_client (events s)"
    by auto
  with assms show ?thesis
    by (simp add: relay_data_def split: ending.splits exn.splits)
qed

text \<open>The destination socket is open while the loop runs, and closing it is the last
  thing \<^verbatim>\<open>relay_data\<close> does whenever it comes back, by \<^verbatim>\<open>return\<close> or by exception.\<close>

lemma relay_for_open:
  "relay_for steps s = (f, s') \<Longrightarrow> DestClosed \<notin> set (events s) \<Longrightarrow>
     DestClosed \<notin> set (events s')"
  by (induction steps arbitrary: s)
     (auto simp: Let_def split: recv_result.splits call_result.splits if_splits)

lemma relay_while_open:
  "relay_while script s = (e, s') \<Longrightarrow> DestClosed \<notin> set (events s) \<Longrightarrow>
     DestClosed \<notin> set (events s')"
proof (induction script s rule: relay_while.induct)
  case (3 steps rest s)
  obtain f s1 where f: "relay_for steps s = (f, s1)" by (cases "relay_for steps s")
  from relay_for_open [OF f "3.prems"(2)] have s1: "DestClosed \<notin> set (events s1)" .
  show ?case
  proof (cases f)
    case Goes_on
    with f "3.prems" have "relay_while rest s1 = (e, s')" by simp
    from "3.IH" [OF f [symmetric] _ this s1] Goes_on show ?thesis by simp
  next
    case Return
    with f "3.prems" s1 show ?thesis by auto
  next
    case (Raise x)
    with f "3.prems" s1 show ?thesis by auto
  qed
qed simp_all

lemma relay_data_closes_dest:
  "relay_data script = (t, r) \<Longrightarrow> r \<noteq> Blocks \<Longrightarrow>
     \<exists>tr. t = tr @ [DestClosed] \<and> DestClosed \<notin> set tr"
proof -
  assume a: "relay_data script = (t, r)" "r \<noteq> Blocks"
  let ?s0 = "\<lparr>events = [], bytes_sent = 0, bytes_received = 0\<rparr>"
  obtain e s where w: "relay_while script ?s0 = (e, s)" by (cases "relay_while script ?s0")
  from relay_while_open [OF w] have "DestClosed \<notin> set (events s)" by simp
  with a w show ?thesis
    by (auto simp: relay_data_def split: option.splits ending.splits exn.splits)
qed

text \<open>
  C7. Take a session that reached the relay, and a relay in which every pass before the
  first read of length zero copied its chunk (each \<^verbatim>\<open>select\<close>, \<^verbatim>\<open>recv\<close> and
  \<^verbatim>\<open>sendall\<close> returned). Then \<^verbatim>\<open>relay_data\<close> closes the destination socket and returns
  the two counters, it does not raise, and \<^verbatim>\<open>run\<close> ends with the end record of status
  \<open>Closed\<close>, without error message and with the bytes copied in each direction, and then
  closes the client socket. Whatever the script holds after the read of length zero is
  never looked at.
\<close>

theorem orderly_close_ends_closed:
  assumes "handle_greeting env = (tg, Returns True)"
    and "handle_request env = (tq, Returns (Some (dest_addr, dest_port)))"
    and "relay_script env = before @ Readable (good @ eof # others) # later"
    and "list_all round_copies before" and "list_all copies good"
    and "recv_out eof = RecvOk []"
  shows "\<exists>tr. relay_data (relay_script env) =
            (tr @ [DestClosed], Returns (copied_to_dest tr, copied_to_client tr))
       \<and> run env =
            (tg @ tq @ LogStart dest_addr dest_port # tr @
               [DestClosed, LogEnd (copied_to_dest tr) (copied_to_client tr) Closed None,
                ClientClosed],
             Returns ())"
proof -
  from relay_while_eof [OF assms(4-6)] assms(3)
  obtain s where "relay_while (relay_script env)
      \<lparr>events = [], bytes_sent = 0, bytes_received = 0\<rparr> = (Some By_return, s)"
    by metis
  from relay_data_ended [OF this]
  have r: "relay_data (relay_script env) =
      (events s @ [DestClosed], Returns (copied_to_dest (events s), copied_to_client (events s)))"
    by simp
  with greeted [OF assms(1,2)] show ?thesis by simp
qed

lemma echo_handshake:
  "handle_greeting (echo_env\<lparr>relay_script := script\<rparr>) =
     ([ClientRecv 2, ClientRecv 1, GreetingReply [5, 0]], Returns True)"
  "handle_request (echo_env\<lparr>relay_script := script\<rparr>) =
     ([ClientRecv 4, ClientRecv 4, ClientRecv 2, DestCreated,
       DestConnected (IPv4 93 184 216 34) 80, SocksReply [5, 0, 0, 1, 0, 0, 0, 0, 0, 0]],
      Returns (Some (IPv4 93 184 216 34, 80)))"
  by (simp_all add: echo_env_def run_defs io_defs reply_bytes)

theorem orderly_close_ends_closed_witness:
  "run echo_env =
     ([ClientRecv 2, ClientRecv 1, GreetingReply [5, 0], ClientRecv 4, ClientRecv 4, ClientRecv 2,
       DestCreated, DestConnected (IPv4 93 184 216 34) 80,
       SocksReply [5, 0, 0, 1, 0, 0, 0, 0, 0, 0], LogStart (IPv4 93 184 216 34) 80,
       ClientRecv 4096, ToDest [1, 2, 3], DestRecv 4096, ToClient [7, 7], ClientRecv 4096,
       DestClosed, LogEnd 3 2 Closed None, ClientClosed], Returns ())
   \<and> (\<exists>tr. relay_data (relay_script echo_env) =
              (tr @ [DestClosed], Returns (copied_to_dest tr, copied_to_client tr))
         \<and> run echo_env =
              ([ClientRecv 2, ClientRecv 1, GreetingReply [5, 0]] @
               [ClientRecv 4, ClientRecv 4, ClientRecv 2, DestCreated,
                DestConnected (IPv4 93 184 216 34) 80,
                SocksReply [5, 0, 0, 1, 0, 0, 0, 0, 0, 0]] @
               LogStart (IPv4 93 184 216 34) 80 # tr @
               [DestClosed, LogEnd (copied_to_dest tr) (copied_to_client tr) Closed None,
                ClientClosed],
               Returns ()))"
proof -
  have g: "handle_greeting echo_env =
     ([ClientRecv 2, ClientRecv 1, GreetingReply [5, 0]], Returns True)"
    and q: "handle_request echo_env =
     ([ClientRecv 4, ClientRecv 4, ClientRecv 2, DestCreated,
       DestConnected (IPv4 93 184 216 34) 80, SocksReply [5, 0, 0, 1, 0, 0, 0, 0, 0, 0]],
      Returns (Some (IPv4 93 184 216 34, 80)))"
    by (simp_all add: echo_env_def run_defs io_defs reply_bytes)
  have s: "relay_script echo_env =
      [Readable [\<lparr>ready = Client, recv_out = RecvOk [1, 2, 3], send_out = Ok\<rparr>]]
      @ Readable ([\<lparr>ready = Dest, recv_out = RecvOk [7, 7], send_out = Ok\<rparr>]
                  @ \<lparr>ready = Client, recv_out = RecvOk [], send_out = Ok\<rparr> # []) # []"
    by (simp add: echo_env_def)
  have "list_all round_copies
          [Readable [\<lparr>ready = Client, recv_out = RecvOk [1, 2, 3], send_out = Ok\<rparr>]]"
    and "list_all copies [\<lparr>ready = Dest, recv_out = RecvOk [7, 7], send_out = Ok\<rparr>]"
    and "recv_out \<lparr>ready = Client, recv_out = RecvOk [], send_out = Ok\<rparr> = RecvOk []"
    by (simp_all add: copies_def)
  from orderly_close_ends_closed [OF g q s this] echo_run show ?thesis by simp
qed

text \<open>
  C3, as the code has it. Take a session that reached the relay and whose relay loop is
  left by an exception. When the exception is a \<^verbatim>\<open>ConnectionResetError\<close>, \<^verbatim>\<open>relay_data\<close>
  catches it and returns its counters: the end record has status \<open>Closed\<close>, the bytes
  copied in each direction up to the reset, and no error message. When it is any other
  exception, \<^verbatim>\<open>relay_data\<close> raises it again and the end record has status \<open>Error\<close> and
  the message of the exception. In both cases the destination socket is closed first and
  the client socket last.
\<close>

theorem relay_failure_end_record:
  assumes "handle_greeting env = (tg, Returns True)"
    and "handle_request env = (tq, Returns (Some (dest_addr, dest_port)))"
    and "relay_while (relay_script env) \<lparr>events = [], bytes_sent = 0, bytes_received = 0\<rparr>
           = (Some (By_raise e), s)"
  shows "(\<forall>m. e = ConnectionResetError m \<longrightarrow>
            run env =
              (tg @ tq @ LogStart dest_addr dest_port # events s @
                 [DestClosed,
                  LogEnd (copied_to_dest (events s)) (copied_to_client (events s)) Closed None,
                  ClientClosed],
               Returns ()))
       \<and> (\<forall>m. e = OtherException m \<longrightarrow>
            (\<exists>sent received.
               run env =
                 (tg @ tq @ LogStart dest_addr dest_port # events s @
                    [DestClosed, LogEnd sent received Error (Some m), ClientClosed],
                  Returns ())))"
  using greeted [OF assms(1,2)] relay_data_ended [OF assms(3)]
  by auto

theorem relay_failure_end_record_witness:
  "run reset_env =
     ([ClientRecv 2, ClientRecv 1, GreetingReply [5, 0], ClientRecv 4, ClientRecv 4, ClientRecv 2,
       DestCreated, DestConnected (IPv4 93 184 216 34) 80,
       SocksReply [5, 0, 0, 1, 0, 0, 0, 0, 0, 0], LogStart (IPv4 93 184 216 34) 80,
       ClientRecv 4096, ToDest [1, 2, 3], DestClosed, LogEnd 3 0 Closed None, ClientClosed],
      Returns ())
   \<and> (\<exists>sent received.
        run broken_env =
          ([ClientRecv 2, ClientRecv 1, GreetingReply [5, 0], ClientRecv 4, ClientRecv 4,
            ClientRecv 2, DestCreated, DestConnected (IPv4 93 184 216 34) 80,
            SocksReply [5, 0, 0, 1, 0, 0, 0, 0, 0, 0], LogStart (IPv4 93 184 216 34) 80,
            ClientRecv 4096, ToDest [1, 2, 3], DestRecv 4096, DestClosed,
            LogEnd sent received Error (Some ''[Errno 32] Broken pipe''), ClientClosed],
           Returns ()))"
proof -
  have r: "relay_while (relay_script reset_env)
             \<lparr>events = [], bytes_sent = 0, bytes_received = 0\<rparr>
      = (Some (By_raise (ConnectionResetError ''[Errno 104] Connection reset by peer'')),
         \<lparr>events = [ClientRecv 4096, ToDest [1, 2, 3]], bytes_sent = 3, bytes_received = 0\<rparr>)"
    by (simp add: reset_env_def echo_env_def BUFFER_SIZE_def)
  have b: "relay_while (relay_script broken_env)
             \<lparr>events = [], bytes_sent = 0, bytes_received = 0\<rparr>
      = (Some (By_raise (OtherException ''[Errno 32] Broken pipe'')),
         \<lparr>events = [ClientRecv 4096, ToDest [1, 2, 3], DestRecv 4096], bytes_sent = 3,
            bytes_received = 0\<rparr>)"
    by (simp add: broken_env_def echo_env_def BUFFER_SIZE_def)
  have hr: "handle_greeting reset_env =
      ([ClientRecv 2, ClientRecv 1, GreetingReply [5, 0]], Returns True)"
    "handle_request reset_env =
      ([ClientRecv 4, ClientRecv 4, ClientRecv 2, DestCreated,
        DestConnected (IPv4 93 184 216 34) 80, SocksReply [5, 0, 0, 1, 0, 0, 0, 0, 0, 0]],
       Returns (Some (IPv4 93 184 216 34, 80)))"
    by (simp_all add: reset_env_def echo_handshake)
  have hb: "handle_greeting broken_env =
      ([ClientRecv 2, ClientRecv 1, GreetingReply [5, 0]], Returns True)"
    "handle_request broken_env =
      ([ClientRecv 4, ClientRecv 4, ClientRecv 2, DestCreated,
        DestConnected (IPv4 93 184 216 34) 80, SocksReply [5, 0, 0, 1, 0, 0, 0, 0, 0, 0]],
       Returns (Some (IPv4 93 184 216 34, 80)))"
    by (simp_all add: broken_env_def echo_handshake)
  from relay_failure_end_record [OF hr r] relay_failure_end_record [OF hb b]
  show ?thesis by (simp add: copied_to_dest_def copied_to_client_def)
qed

text \<open>
  C3 as stated fails twice. A reset by the destination after three bytes went to it gives
  an end record of status \<open>Closed\<close>, not \<open>Error\<close>, and without message. A broken pipe
  after three bytes went to the destination gives an end record of status \<open>Error\<close> whose
  counters are both 0: line 118 passes the literals, the counters of \<^verbatim>\<open>relay_data\<close>
  being lost when it raises.
\<close>

theorem relay_failure_counterexample:
  "run reset_env =
     ([ClientRecv 2, ClientRecv 1, GreetingReply [5, 0], ClientRecv 4, ClientRecv 4, ClientRecv 2,
       DestCreated, DestConnected (IPv4 93 184 216 34) 80,
       SocksReply [5, 0, 0, 1, 0, 0, 0, 0, 0, 0], LogStart (IPv4 93 184 216 34) 80,
       ClientRecv 4096, ToDest [1, 2, 3], DestClosed, LogEnd 3 0 Closed None, ClientClosed],
      Returns ())
   \<and> run broken_env =
     ([ClientRecv 2, ClientRecv 1, GreetingReply [5, 0], ClientRecv 4, ClientRecv 4, ClientRecv 2,
       DestCreated, DestConnected (IPv4 93 184 216 34) 80,
       SocksReply [5, 0, 0, 1, 0, 0, 0, 0, 0, 0], LogStart (IPv4 93 184 216 34) 80,
       ClientRecv 4096, ToDest [1, 2, 3], DestRecv 4096, DestClosed,
       LogEnd 0 0 Error (Some ''[Errno 32] Broken pipe''), ClientClosed],
      Returns ())"
  by (simp add: reset_env_def broken_env_def echo_env_def run_defs io_defs reply_bytes)

subsection \<open>Sessions that end before the relay\<close>

lemma not_greeted:
  "handle_greeting env = (tg, Returns False) \<Longrightarrow> run env = (tg @ [ClientClosed], Returns ())"
  by (simp add: run_def run_body_def io_defs)

lemma handshake_quiet:
  "all_events (\<lambda>ev. \<not> is_start ev \<and> \<not> is_end ev \<and> \<not> moves_bytes ev) (handle_greeting env)"
  "all_events (\<lambda>ev. \<not> is_start ev \<and> \<not> is_end ev \<and> \<not> moves_bytes ev) (handle_request env)"
  by (rule handle_greeting_events handle_request_events; simp)+

lemma refused_run:
  "run refused_env =
     ([ClientRecv 2, ClientRecv 1, GreetingReply [5, 0], ClientRecv 4, ClientRecv 4, ClientRecv 2,
       DestCreated, SocksReply [5, 1, 0, 1, 0, 0, 0, 0, 0, 0], ClientClosed], Returns ())"
  by (simp add: refused_env_def echo_env_def run_defs io_defs reply_bytes)

text \<open>
  C4, as the code has it. A session in which \<^verbatim>\<open>handle_greeting\<close> returns \<^verbatim>\<open>False\<close>, or in
  which it returns \<^verbatim>\<open>True\<close> and \<^verbatim>\<open>handle_request\<close> returns no socket, comes to its end
  with no start record, no end record and no byte relayed. In particular, after a
  completed greeting and a well-formed \<^verbatim>\<open>CONNECT\<close> request, when \<^verbatim>\<open>connect\<close> raises and
  the client takes the reply, the trace is: the reads of greeting and request, the
  creation of the destination socket, the reply with code 1, the closing of the client
  socket; there is no start record and no relay.
\<close>

theorem no_record_before_relay:
  "(snd (handle_greeting env) = Returns False
      \<or> snd (handle_greeting env) = Returns True \<and> snd (handle_request env) = Returns None
    \<longrightarrow> snd (run env) = Returns ()
        \<and> list_all (\<lambda>ev. \<not> is_start ev \<and> \<not> is_end ev \<and> \<not> moves_bytes ev) (fst (run env)))
   \<and> (greeting_recv env = RecvOk [5, nmethods] \<and> methods_recv env = RecvOk methods
        \<and> greeting_send env = Ok \<and> header_recv env = RecvOk [5, 1, rsv, atyp]
        \<and> (atyp = 1 \<and> ipv4_recv env = RecvOk [a, b, c, d] \<and> dest_addr = IPv4 a b c d
             \<or> atyp = 3 \<and> len_recv env = RecvOk [addr_len] \<and> name_recv env = RecvOk name
                 \<and> utf8_decode env name = Some decoded \<and> dest_addr = Domain decoded)
        \<and> port_recv env = RecvOk [hi, lo] \<and> socket_res env = Ok
        \<and> connect_res env = Fail e \<and> reply_send env 1 = Ok
    \<longrightarrow> run env =
          ([ClientRecv 2, ClientRecv (unat nmethods), GreetingReply [5, 0], ClientRecv 4]
             @ (if atyp = 1 then [ClientRecv 4] else [ClientRecv 1, ClientRecv (unat addr_len)])
             @ [ClientRecv 2, DestCreated, SocksReply [5, 1, 0, 1, 0, 0, 0, 0, 0, 0],
                ClientClosed],
           Returns ()))"
proof (intro conjI impI)
  assume h: "snd (handle_greeting env) = Returns False
      \<or> snd (handle_greeting env) = Returns True \<and> snd (handle_request env) = Returns None"
  obtain tg rg where g: "handle_greeting env = (tg, rg)" by (cases "handle_greeting env")
  obtain tq rq where q: "handle_request env = (tq, rq)" by (cases "handle_request env")
  from handshake_quiet [of env] g q
  have quiet: "list_all (\<lambda>ev. \<not> is_start ev \<and> \<not> is_end ev \<and> \<not> moves_bytes ev) tg"
    "list_all (\<lambda>ev. \<not> is_start ev \<and> \<not> is_end ev \<and> \<not> moves_bytes ev) tq"
    by (simp_all add: all_events_def)
  from h g q consider "rg = Returns False" | "rg = Returns True" "rq = Returns None" by auto
  then have "run env = (tg @ [ClientClosed], Returns ())
      \<or> run env = (tg @ tq @ [ClientClosed], Returns ())"
  proof cases
    case 1
    with g not_greeted show ?thesis by simp
  next
    case 2
    with g q greeted [of env tg tq rq] show ?thesis by simp
  qed
  with quiet show "snd (run env) = Returns ()"
    and "list_all (\<lambda>ev. \<not> is_start ev \<and> \<not> is_end ev \<and> \<not> moves_bytes ev) (fst (run env))"
    by auto
next
  assume h: "greeting_recv env = RecvOk [5, nmethods] \<and> methods_recv env = RecvOk methods
        \<and> greeting_send env = Ok \<and> header_recv env = RecvOk [5, 1, rsv, atyp]
        \<and> (atyp = 1 \<and> ipv4_recv env = RecvOk [a, b, c, d] \<and> dest_addr = IPv4 a b c d
             \<or> atyp = 3 \<and> len_recv env = RecvOk [addr_len] \<and> name_recv env = RecvOk name
                 \<and> utf8_decode env name = Some decoded \<and> dest_addr = Domain decoded)
        \<and> port_recv env = RecvOk [hi, lo] \<and> socket_res env = Ok
        \<and> connect_res env = Fail e \<and> reply_send env 1 = Ok"
  then have g: "handle_greeting env =
      ([ClientRecv 2, ClientRecv (unat nmethods), GreetingReply [5, 0]], Returns True)"
    by (intro greeting_accepted) simp_all
  from h have q: "handle_request env =
    (ClientRecv 4
       # (if atyp = 1 then [ClientRecv 4] else [ClientRecv 1, ClientRecv (unat addr_len)])
       @ [ClientRecv 2, DestCreated, SocksReply [5, 1, 0, 1, 0, 0, 0, 0, 0, 0]],
     Returns None)"
    by (intro request_unreachable [where a = a and b = b and c = c and d = d and name = name
          and decoded = decoded and e = e and dest_addr = dest_addr]) simp_all
  from greeted [OF g q]
  show "run env =
          ([ClientRecv 2, ClientRecv (unat nmethods), GreetingReply [5, 0], ClientRecv 4]
             @ (if atyp = 1 then [ClientRecv 4] else [ClientRecv 1, ClientRecv (unat addr_len)])
             @ [ClientRecv 2, DestCreated, SocksReply [5, 1, 0, 1, 0, 0, 0, 0, 0, 0],
                ClientClosed],
           Returns ())"
    by simp
qed

theorem no_record_before_relay_witness:
  "snd (handle_greeting refused_env) = Returns True
   \<and> snd (handle_request refused_env) = Returns None
   \<and> connect_res refused_env = Fail (OtherException ''[Errno 111] Connection refused'')
   \<and> run refused_env =
     ([ClientRecv 2, ClientRecv 1, GreetingReply [5, 0], ClientRecv 4, ClientRecv 4, ClientRecv 2,
       DestCreated, SocksReply [5, 1, 0, 1, 0, 0, 0, 0, 0, 0], ClientClosed], Returns ())
   \<and> list_all (\<lambda>ev. \<not> is_start ev \<and> \<not> is_end ev \<and> \<not> moves_bytes ev) (fst (run refused_env))"
  using no_record_before_relay
          [of refused_env 1 "[0]" 0 1 93 184 216 34 "IPv4 93 184 216 34" 0 "[]" "[]" 0 80
              "OtherException ''[Errno 111] Connection refused''"]
  by (simp add: refused_env_def echo_env_def run_defs io_defs reply_bytes)

text \<open>
  C4 as stated fails: a client that connects and closes at once makes \<^verbatim>\<open>recv(2)\<close> return
  no byte, \<^verbatim>\<open>struct.unpack\<close> raises inside \<^verbatim>\<open>handle_greeting\<close>, and the handler of \<^verbatim>\<open>run\<close>
  calls \<^verbatim>\<open>db_log_end\<close>: the session never reached the relay and yet emits an end record.
\<close>

theorem hangup_emits_end_record:
  "run hangup_env =
     ([ClientRecv 2, LogEnd 0 0 Error (Some ''unpack requires a buffer of 2 bytes''),
       ClientClosed],
      Returns ())"
  by (simp add: hangup_env_def echo_env_def run_defs io_defs)

subsection \<open>Closing the sockets\<close>

text \<open>
  C8. The claim holds for the relay (\<open>relay_data_closes_dest\<close> above) and for the client
  socket, and fails for the destination socket of a session that never reaches the relay:
  when the destination refuses the connection, the socket made on line 169 is never
  closed. The handler on lines 176 to 179 writes the reply and returns, and \<^verbatim>\<open>run\<close>
  closes the client socket only. The trace of that session has the creation of the
  destination socket and no closing of it.
\<close>

theorem unreachable_dest_socket_never_closed:
  "run refused_env =
     ([ClientRecv 2, ClientRecv 1, GreetingReply [5, 0], ClientRecv 4, ClientRecv 4, ClientRecv 2,
       DestCreated, SocksReply [5, 1, 0, 1, 0, 0, 0, 0, 0, 0], ClientClosed], Returns ())
   \<and> DestCreated \<in> set (fst (run refused_env)) \<and> DestClosed \<notin> set (fst (run refused_env))"
  by (simp add: refused_run)

end
